theory Spec2Isabelle
  imports Complex_Main
begin

section \<open>Exact decimal amounts\<close>

text \<open>
  The source computes with Python's \<^verbatim>\<open>decimal.Decimal\<close>. A finite decimal is a signed
  coefficient and an exponent; its numeric value is \<open>coefficient * 10 ^ exponent\<close>. Two
  decimals of the same value and different exponents (\<^verbatim>\<open>Decimal("8")\<close> and
  \<^verbatim>\<open>Decimal("8.00")\<close>) compare equal in Python and still differ in their number of
  fractional digits and in their printed form, so the exponent is part of the model.
  \<open>Decimal c e\<close> stands for the literal with coefficient \<open>c\<close> and exponent \<open>e\<close>:
  \<^verbatim>\<open>Decimal("22.90")\<close> is \<open>Decimal 2290 (-2)\<close>, \<^verbatim>\<open>Decimal("8")\<close> is \<open>Decimal 8 0\<close>.
  No amount of the program is negative, so the sign lives in the coefficient and a
  negative zero is not represented.

  Addition and multiplication are modelled exactly. Python rounds their results to the
  28 significant digits of the default context; the lemma \<open>total_cost_within_precision\<close>
  below shows that no coefficient computed on a constructed subscription comes near that
  bound.
\<close>

datatype decimal = Decimal (dec_int: int) (dec_exp: int)

definition dec_value :: "decimal \<Rightarrow> rat" where
  "dec_value d = of_int (dec_int d) * 10 powi dec_exp d"

text \<open>\<^verbatim>\<open>Decimal(n)\<close> for an integer \<open>n\<close>, as the implicit conversion of \<^verbatim>\<open>Decimal * int\<close> does.\<close>

definition dec_of_int :: "int \<Rightarrow> decimal" where
  "dec_of_int n = Decimal n 0"

definition dec_mul :: "decimal \<Rightarrow> decimal \<Rightarrow> decimal" where
  "dec_mul a b = Decimal (dec_int a * dec_int b) (dec_exp a + dec_exp b)"

definition dec_add :: "decimal \<Rightarrow> decimal \<Rightarrow> decimal" where
  "dec_add a b =
     (let e = min (dec_exp a) (dec_exp b)
      in Decimal (dec_int a * 10 ^ nat (dec_exp a - e) + dec_int b * 10 ^ nat (dec_exp b - e)) e)"

text \<open>
  \<^verbatim>\<open>d.quantize(q, rounding=ROUND_HALF_UP)\<close>: the result has the exponent of \<open>q\<close>. A
  coarser exponent in \<open>d\<close> pads with zeros; a finer one drops digits and rounds the
  magnitude up as soon as the dropped part is at least half a unit of the last kept digit.
  (Python refuses a result of more than 28 digits; the same lemma shows that this does not
  happen on a constructed subscription.)
\<close>

definition quantize :: "decimal \<Rightarrow> decimal \<Rightarrow> decimal" where
  "quantize d q =
     (let e = dec_exp q in
      if e \<le> dec_exp d then Decimal (dec_int d * 10 ^ nat (dec_exp d - e)) e
      else
        let p = 10 ^ nat (e - dec_exp d);
            m = \<bar>dec_int d\<bar> div p;
            r = \<bar>dec_int d\<bar> mod p
        in Decimal (sgn (dec_int d) * (if p \<le> 2 * r then m + 1 else m)) e)"

section \<open>Formulas, tariff plans and the two tariff tables\<close>

datatype Formula =
    ILLIMITE_26_PLUS
  | ILLIMITE_26_MINUS
  | ILLIMITE_2_PERS
  | FAMILLE
  | ILLIMITE_WEEKEND
  | ILLIMITE_SEMAINE
  | ILLIMITE_3D
  | CINE_PLUS_CANAL
  | CINE_DAY

text \<open>
  Every failure of the source is a \<^verbatim>\<open>ValueError\<close>; the constructors tell the four
  raise statements apart by their message.
\<close>

datatype error =
    StartDayOutOfRange
  | UnsupportedDuration
  | IncompatibleFormula
  | InvalidFamily

text \<open>
  The frozen dataclass \<^verbatim>\<open>TariffPlan\<close> and its method \<^verbatim>\<open>first_payment_for_day\<close>
  (\<^verbatim>\<open>abonnement.py\<close>, lines 29 to 45). The brackets are the 4-tuple of the type annotation.
\<close>

record TariffPlan =
  monthly_fee :: decimal
  first_payment_brackets :: "decimal \<times> decimal \<times> decimal \<times> decimal"

definition first_payment_for_day :: "TariffPlan \<Rightarrow> int \<Rightarrow> error + decimal" where
  "first_payment_for_day self start_day =
     (case first_payment_brackets self of (b0, b1, b2, b3) \<Rightarrow>
        if \<not> (1 \<le> start_day \<and> start_day \<le> 31) then Inl StartDayOutOfRange
        else if start_day \<le> 8 then Inr b0
        else if start_day \<le> 16 then Inr b1
        else if start_day \<le> 22 then Inr b2
        else Inr b3)"

text \<open>
  The tables are the dict literals of the source (lines 58 to 180), entry by entry and in
  the source's order.
  Every amount is written with two decimals there (exponent \<open>-2\<close>), except the five
  amounts of \<open>CINE_DAY\<close>, which the source writes \<^verbatim>\<open>Decimal("8")\<close> (exponent \<open>0\<close>).
\<close>

definition TABLE_1 :: "Formula \<rightharpoonup> TariffPlan" where
  "TABLE_1 = map_of
     [
      (ILLIMITE_26_PLUS,
        \<lparr>monthly_fee = Decimal 2290 (-2),
         first_payment_brackets =
           (Decimal 4580 (-2), Decimal 3053 (-2), Decimal 3060 (-2), Decimal 2290 (-2))\<rparr>),
      (ILLIMITE_26_MINUS,
        \<lparr>monthly_fee = Decimal 1790 (-2),
         first_payment_brackets =
           (Decimal 3580 (-2), Decimal 2479 (-2), Decimal 2387 (-2), Decimal 1790 (-2))\<rparr>),
      (ILLIMITE_2_PERS,
        \<lparr>monthly_fee = Decimal 3680 (-2),
         first_payment_brackets =
           (Decimal 7360 (-2), Decimal 4932 (-2), Decimal 4926 (-2), Decimal 3680 (-2))\<rparr>),
      (FAMILLE,
        \<lparr>monthly_fee = Decimal 3790 (-2),
         first_payment_brackets =
           (Decimal 7580 (-2), Decimal 5059 (-2), Decimal 5056 (-2), Decimal 3790 (-2))\<rparr>),
      (ILLIMITE_WEEKEND,
        \<lparr>monthly_fee = Decimal 1690 (-2),
         first_payment_brackets =
           (Decimal 3380 (-2), Decimal 2243 (-2), Decimal 2253 (-2), Decimal 1690 (-2))\<rparr>),
      (ILLIMITE_SEMAINE,
        \<lparr>monthly_fee = Decimal 1990 (-2),
         first_payment_brackets =
           (Decimal 3980 (-2), Decimal 2746 (-2), Decimal 2653 (-2), Decimal 1990 (-2))\<rparr>)]"

definition TABLE_2 :: "Formula \<rightharpoonup> TariffPlan" where
  "TABLE_2 = map_of
     [
      (ILLIMITE_26_PLUS,
        \<lparr>monthly_fee = Decimal 2290 (-2),
         first_payment_brackets =
           (Decimal 2959 (-2), Decimal 2290 (-2), Decimal 2290 (-2), Decimal 2290 (-2))\<rparr>),
      (ILLIMITE_26_MINUS,
        \<lparr>monthly_fee = Decimal 1790 (-2),
         first_payment_brackets =
           (Decimal 2084 (-2), Decimal 1790 (-2), Decimal 1790 (-2), Decimal 1790 (-2))\<rparr>),
      (ILLIMITE_2_PERS,
        \<lparr>monthly_fee = Decimal 3680 (-2),
         first_payment_brackets =
           (Decimal 4293 (-2), Decimal 3680 (-2), Decimal 3680 (-2), Decimal 3680 (-2))\<rparr>),
      (FAMILLE,
        \<lparr>monthly_fee = Decimal 3790 (-2),
         first_payment_brackets =
           (Decimal 4424 (-2), Decimal 3790 (-2), Decimal 3790 (-2), Decimal 3790 (-2))\<rparr>),
      (ILLIMITE_3D,
        \<lparr>monthly_fee = Decimal 3090 (-2),
         first_payment_brackets =
           (Decimal 3090 (-2), Decimal 3090 (-2), Decimal 3090 (-2), Decimal 3090 (-2))\<rparr>),
      (CINE_PLUS_CANAL,
        \<lparr>monthly_fee = Decimal 4490 (-2),
         first_payment_brackets =
           (Decimal 4490 (-2), Decimal 4490 (-2), Decimal 4490 (-2), Decimal 4490 (-2))\<rparr>),
      (CINE_DAY,
        \<lparr>monthly_fee = Decimal 8 0,
         first_payment_brackets =
           (Decimal 8 0, Decimal 8 0, Decimal 8 0, Decimal 8 0)\<rparr>)]"

text \<open>
  What the amounts of the two tables have in common: a non-negative coefficient of at most
  four digits and an exponent of \<open>0\<close> or \<open>-2\<close>.
\<close>

definition table_amount :: "decimal \<Rightarrow> bool" where
  "table_amount x =
     (0 \<le> dec_int x \<and> dec_int x < 10000 \<and> (dec_exp x = 0 \<or> dec_exp x = - 2))"

section \<open>Calendar dates\<close>

text \<open>
  \<^verbatim>\<open>start_date\<close> is a \<^verbatim>\<open>datetime.date\<close> of the standard library. Its constructor
  accepts exactly the triples described by \<open>valid_date\<close>: a year from 1 to 9999, a month
  from 1 to 12 and a day from 1 to the number of days of that month in that year.
\<close>

record date =
  year :: int
  month :: int
  day :: int

definition is_leap :: "int \<Rightarrow> bool" where
  "is_leap y = (y mod 4 = 0 \<and> (y mod 100 \<noteq> 0 \<or> y mod 400 = 0))"

definition days_in_month :: "int \<Rightarrow> int \<Rightarrow> int" where
  "days_in_month y m =
     (if m = 2 \<and> is_leap y then 29
      else if m = 2 then 28
      else if m = 4 \<or> m = 6 \<or> m = 9 \<or> m = 11 then 30
      else 31)"

definition valid_date :: "date \<Rightarrow> bool" where
  "valid_date d =
     (1 \<le> year d \<and> year d \<le> 9999 \<and> 1 \<le> month d \<and> month d \<le> 12 \<and>
      1 \<le> day d \<and> day d \<le> days_in_month (year d) (month d))"

section \<open>The subscription\<close>

text \<open>
  The class \<^verbatim>\<open>Abonnement\<close> (lines 183 to 261). An instance holds the six constructor
  arguments and the tariff resolved at construction (the attribute \<^verbatim>\<open>_tariff\<close> of the
  source).
\<close>

record Abonnement =
  formula :: Formula
  duration_months :: int
  start_date :: date
  adults :: int
  children :: int
  livret_presented :: bool
  tariff :: TariffPlan

text \<open>
  \<^verbatim>\<open>_resolve_tariff\<close> reads the duration and the formula of the instance. A key missing
  from the selected table is the \<^verbatim>\<open>KeyError\<close> that the source turns into a
  \<^verbatim>\<open>ValueError\<close>.
\<close>

definition resolve_tariff :: "Formula \<Rightarrow> int \<Rightarrow> error + TariffPlan" where
  "resolve_tariff f d =
     (if d = 1 then
        (case TABLE_1 f of None \<Rightarrow> Inl IncompatibleFormula | Some t \<Rightarrow> Inr t)
      else if d = 6 \<or> d = 12 then
        (case TABLE_2 f of None \<Rightarrow> Inl IncompatibleFormula | Some t \<Rightarrow> Inr t)
      else Inl UnsupportedDuration)"

definition validate_family :: "Abonnement \<Rightarrow> bool" where
  "validate_family self =
     (if formula self \<noteq> FAMILLE then True
      else adults self \<le> 2 \<and> children self \<le> 2 \<and> livret_presented self)"

text \<open>
  \<^verbatim>\<open>__init__\<close>: the tariff is resolved first, the family check comes second. The
  defaults of the source (\<^verbatim>\<open>adults=1, children=0, livret_presented=False\<close>) are the
  caller's to pass.
\<close>

definition Abonnement_init ::
  "Formula \<Rightarrow> int \<Rightarrow> date \<Rightarrow> int \<Rightarrow> int \<Rightarrow> bool \<Rightarrow> error + Abonnement" where
  "Abonnement_init f d sd a c l =
     (case resolve_tariff f d of
        Inl e \<Rightarrow> Inl e
      | Inr t \<Rightarrow>
          let self = \<lparr>formula = f, duration_months = d, start_date = sd, adults = a,
                      children = c, livret_presented = l, tariff = t\<rparr>
          in if formula self = FAMILLE \<and> \<not> validate_family self then Inl InvalidFamily
             else Inr self)"

text \<open>The property \<^verbatim>\<open>monthly_fee\<close> of the subscription (the tariff plan has a field of that name).\<close>

definition Abonnement_monthly_fee :: "Abonnement \<Rightarrow> decimal" where
  "Abonnement_monthly_fee self = monthly_fee (tariff self)"

definition first_payment :: "Abonnement \<Rightarrow> error + decimal" where
  "first_payment self =
     (case first_payment_for_day (tariff self) (day (start_date self)) of
        Inl e \<Rightarrow> Inl e
      | Inr payment \<Rightarrow> Inr (quantize payment (Decimal 1 (-2))))"

definition total_cost :: "Abonnement \<Rightarrow> error + decimal" where
  "total_cost self =
     (let remaining_months = max (duration_months self - 1) 0 in
      case first_payment self of
        Inl e \<Rightarrow> Inl e
      | Inr fp \<Rightarrow>
          let total = dec_add fp (dec_mul (Abonnement_monthly_fee self) (dec_of_int remaining_months))
          in Inr (quantize total (Decimal 1 (-2))))"

section \<open>Rounding as the specification words it\<close>

text \<open>
  "Rounded to 2 decimals, round-half-up", on the numeric value: the nearest multiple of
  one hundredth, a tie going away from zero.
\<close>

definition round_half_up_2dp :: "rat \<Rightarrow> rat" where
  "round_half_up_2dp x = sgn x * of_int \<lfloor>\<bar>x\<bar> * 100 + 1 / 2\<rfloor> / 100"

section \<open>What can happen to an instance after construction\<close>

text \<open>
  The methods of the source take the instance and return a value or raise; none of them
  assigns to an attribute. \<open>call\<close> makes this explicit: it returns the outcome of one
  accessor together with the instance as the call leaves it. (\<^verbatim>\<open>__str__\<close> only formats
  the results of \<open>Abonnement_monthly_fee\<close> and \<open>first_payment\<close>; the text it builds is not
  modelled.)
\<close>

datatype accessor = MonthlyFee | FirstPayment | TotalCost | ValidateFamily

datatype outcome = Amount decimal | Flag bool | Raised error

definition amount_or_raised :: "error + decimal \<Rightarrow> outcome" where
  "amount_or_raised r = (case r of Inl e \<Rightarrow> Raised e | Inr x \<Rightarrow> Amount x)"

fun call :: "accessor \<Rightarrow> Abonnement \<Rightarrow> outcome \<times> Abonnement" where
  "call MonthlyFee self = (Amount (Abonnement_monthly_fee self), self)"
| "call FirstPayment self = (amount_or_raised (first_payment self), self)"
| "call TotalCost self = (amount_or_raised (total_cost self), self)"
| "call ValidateFamily self = (Flag (validate_family self), self)"

text \<open>
  \<^verbatim>\<open>Abonnement\<close> is a plain class: unlike \<^verbatim>\<open>TariffPlan\<close> it is not a frozen dataclass,
  and \<^verbatim>\<open>__init__\<close> stores its arguments in public attributes. Python therefore lets a
  caller assign any of the seven attributes of a constructed instance, with a value of the
  attribute's type. An operation on an instance is a call of an accessor or such an
  assignment; \<open>run\<close> performs a sequence of operations, the first one first.
\<close>

datatype operation =
    Call accessor
  | SetFormula Formula
  | SetDurationMonths int
  | SetStartDate date
  | SetAdults int
  | SetChildren int
  | SetLivretPresented bool
  | SetTariff TariffPlan

fun apply_operation :: "operation \<Rightarrow> Abonnement \<Rightarrow> Abonnement" where
  "apply_operation (Call m) self = snd (call m self)"
| "apply_operation (SetFormula x) self = self\<lparr>formula := x\<rparr>"
| "apply_operation (SetDurationMonths x) self = self\<lparr>duration_months := x\<rparr>"
| "apply_operation (SetStartDate x) self = self\<lparr>start_date := x\<rparr>"
| "apply_operation (SetAdults x) self = self\<lparr>adults := x\<rparr>"
| "apply_operation (SetChildren x) self = self\<lparr>children := x\<rparr>"
| "apply_operation (SetLivretPresented x) self = self\<lparr>livret_presented := x\<rparr>"
| "apply_operation (SetTariff x) self = self\<lparr>tariff := x\<rparr>"

fun run :: "operation list \<Rightarrow> Abonnement \<Rightarrow> Abonnement" where
  "run [] self = self"
| "run (x # xs) self = run xs (apply_operation x self)"

text \<open>The assignments to one of the four attributes that \<open>validate_family\<close> reads.\<close>

fun assigns_household :: "operation \<Rightarrow> bool" where
  "assigns_household (SetFormula x) = True"
| "assigns_household (SetAdults x) = True"
| "assigns_household (SetChildren x) = True"
| "assigns_household (SetLivretPresented x) = True"
| "assigns_household x = False"

section \<open>Numeric value of the decimal operations\<close>

lemma pow_nat_powi: "0 \<le> k \<Longrightarrow> (10::rat) ^ nat k = 10 powi k"
  by (simp add: power_int_def)

lemma dec_value_of_int: "dec_value (dec_of_int n) = of_int n"
  by (simp add: dec_value_def dec_of_int_def)

lemma dec_value_mul: "dec_value (dec_mul a b) = dec_value a * dec_value b"
  by (simp add: dec_value_def dec_mul_def power_int_add)

lemma dec_value_rescale:
  assumes "e' \<le> e"
  shows "dec_value (Decimal (c * 10 ^ nat (e - e')) e') = dec_value (Decimal c e)"
proof -
  have "(10::rat) ^ nat (e - e') * 10 powi e' = 10 powi e"
    using assms by (simp add: pow_nat_powi flip: power_int_add)
  then show ?thesis
    by (simp add: dec_value_def mult.assoc)
qed

lemma dec_value_same_exp:
  "dec_value (Decimal (a + b) e) = dec_value (Decimal a e) + dec_value (Decimal b e)"
  by (simp add: dec_value_def distrib_right)

lemma dec_value_add: "dec_value (dec_add a b) = dec_value a + dec_value b"
proof -
  obtain x e y f where a: "a = Decimal x e" and b: "b = Decimal y f"
    by (cases a, cases b) auto
  have "min e f \<le> e" "min e f \<le> f" by simp_all
  then show ?thesis
    unfolding a b
    by (simp add: dec_add_def Let_def dec_value_same_exp dec_value_rescale del: min_less_iff_conj)
qed

lemma dec_value_cents: "dec_value (Decimal n (-2)) = of_int n / 100"
  by (simp add: dec_value_def power_int_minus field_simps)

lemma dec_value_units: "dec_value (Decimal n 0) = of_int (n * 100) / 100"
  by (simp add: dec_value_def)

subsection \<open>Quantizing rounds the value half up\<close>

lemma half_up_div:
  fixes n p :: int
  assumes "0 \<le> n" "0 < p"
  shows "(2 * n + p) div (2 * p) = (if p \<le> 2 * (n mod p) then n div p + 1 else n div p)"
proof -
  define m where "m = n div p"
  define r where "r = n mod p"
  have n: "n = p * m + r" by (simp add: m_def r_def)
  have r: "0 \<le> r" "r < p" using assms by (simp_all add: r_def)
  show ?thesis
  proof (cases "p \<le> 2 * r")
    case True
    have "2 * n + p = (2 * r - p) + (2 * p) * (m + 1)" by (simp add: n algebra_simps)
    then have "(2 * n + p) div (2 * p) = (m + 1) + (2 * r - p) div (2 * p)"
      using assms by (simp only: div_mult_self2)
    moreover have "(2 * r - p) div (2 * p) = 0"
      using True r by (intro div_pos_pos_trivial) simp_all
    ultimately show ?thesis using True by (simp add: m_def r_def)
  next
    case False
    have "2 * n + p = (2 * r + p) + (2 * p) * m" by (simp add: n algebra_simps)
    then have "(2 * n + p) div (2 * p) = m + (2 * r + p) div (2 * p)"
      using assms by (simp only: div_mult_self2)
    moreover have "(2 * r + p) div (2 * p) = 0"
      using False r by (intro div_pos_pos_trivial) simp_all
    ultimately show ?thesis using False by (simp add: m_def r_def)
  qed
qed

lemma floor_half_up:
  fixes n p :: int
  assumes "0 \<le> n" "0 < p"
  shows "\<lfloor>(of_int n :: rat) / of_int p + 1 / 2\<rfloor> =
         (if p \<le> 2 * (n mod p) then n div p + 1 else n div p)"
proof -
  have "(of_int n :: rat) / of_int p + 1 / 2 = of_int (2 * n + p) / of_int (2 * p)"
    using assms by (simp add: field_simps)
  then have "\<lfloor>(of_int n :: rat) / of_int p + 1 / 2\<rfloor> = (2 * n + p) div (2 * p)"
    by (simp only: floor_divide_of_int_eq)
  then show ?thesis using half_up_div [OF assms] by simp
qed

lemma round_half_up_2dp_cents: "round_half_up_2dp (of_int n / 100) = of_int n / 100"
proof -
  have a: "\<bar>(of_int n :: rat) / 100\<bar> * 100 = of_int \<bar>n\<bar>" by simp
  have f: "\<lfloor>(of_int \<bar>n\<bar> :: rat) + 1 / 2\<rfloor> = \<bar>n\<bar>" by linarith
  have s: "sgn ((of_int n :: rat) / 100) = of_int (sgn n)" by (simp add: sgn_if)
  have "(of_int (sgn n) :: rat) * of_int \<bar>n\<bar> = of_int n"
    by (simp add: sgn_if)
  then show ?thesis
    unfolding round_half_up_2dp_def a f s by simp
qed

lemma dec_value_quantize:
  "dec_value (quantize d (Decimal 1 (-2))) = round_half_up_2dp (dec_value d)"
proof (cases "- 2 \<le> dec_exp d")
  case True
  obtain c e where d: "d = Decimal c e" by (cases d) auto
  from True have q: "quantize d (Decimal 1 (-2)) = Decimal (c * 10 ^ nat (e - (-2))) (-2)"
    by (simp add: quantize_def d)
  have "dec_value d = dec_value (Decimal (c * 10 ^ nat (e - (-2))) (-2))"
    using True dec_value_rescale [of "-2" e c] by (simp add: d)
  then show ?thesis
    unfolding q by (simp only: dec_value_cents round_half_up_2dp_cents)
next
  case False
  obtain c e where d: "d = Decimal c e" by (cases d) auto
  define p :: int where "p = 10 ^ nat (- 2 - e)"
  define M where "M = (if p \<le> 2 * (\<bar>c\<bar> mod p) then \<bar>c\<bar> div p + 1 else \<bar>c\<bar> div p)"
  have p: "0 < p" by (simp add: p_def)
  from False have q: "quantize d (Decimal 1 (-2)) = Decimal (sgn c * M) (-2)"
    by (simp add: quantize_def d Let_def p_def M_def)
  have "(10::rat) powi e * 10 ^ nat (- 2 - e) = 10 powi (- 2)"
    using False d by (simp add: pow_nat_powi flip: power_int_add)
  then have "(10::rat) powi e * of_int p = 1 / 100"
    by (simp add: p_def power_int_minus)
  then have e: "(10::rat) powi e = 1 / (of_int p * 100)"
    using p by (simp add: field_simps)
  have x: "dec_value d = of_int c / (of_int p * 100)"
    by (simp add: dec_value_def d e)
  have a: "\<bar>dec_value d\<bar> * 100 = of_int \<bar>c\<bar> / of_int p"
    using p by (simp add: x abs_mult)
  have s: "sgn (dec_value d) = of_int (sgn c)"
    using p by (simp add: x sgn_if zero_less_divide_iff divide_less_0_iff)
  have f: "\<lfloor>(of_int \<bar>c\<bar> :: rat) / of_int p + 1 / 2\<rfloor> = M"
    unfolding M_def using p by (intro floor_half_up) simp_all
  show ?thesis
    unfolding q round_half_up_2dp_def a f s by (simp add: dec_value_cents)
qed

lemma dec_exp_quantize: "dec_exp (quantize d q) = dec_exp q"
  by (simp add: quantize_def Let_def)

text \<open>
  A value whose third fractional digit is exactly 5 goes up: \<open>12.345\<close> becomes \<open>12.35\<close>
  and \<open>0.005\<close> becomes \<open>0.01\<close>, while \<open>12.344\<close> stays at \<open>12.34\<close>.
\<close>

lemma quantize_half_examples:
  "quantize (Decimal 12345 (-3)) (Decimal 1 (-2)) = Decimal 1235 (-2)"
  "quantize (Decimal 5 (-3)) (Decimal 1 (-2)) = Decimal 1 (-2)"
  "quantize (Decimal 12344 (-3)) (Decimal 1 (-2)) = Decimal 1234 (-2)"
  by (simp_all add: quantize_def Let_def)

lemma quantize_third_digit_five:
  assumes "0 \<le> n"
  shows "quantize (Decimal (10 * n + 5) (-3)) (Decimal 1 (-2)) = Decimal (n + 1) (-2)"
proof -
  have "(5 + n * 10) mod 10 = (5::int)" by presburger
  moreover have "(5 + n * 10) div 10 = n" by presburger
  ultimately show ?thesis
    using assms by (simp add: quantize_def Let_def sgn_if abs_if mult.commute add.commute)
qed

section \<open>Facts about the tables, the resolution and the constructor\<close>

lemma dom_TABLE_1:
  "dom TABLE_1 = {ILLIMITE_26_PLUS, ILLIMITE_26_MINUS, ILLIMITE_2_PERS, FAMILLE,
     ILLIMITE_WEEKEND, ILLIMITE_SEMAINE}"
  by (simp add: TABLE_1_def dom_map_of_conv_image_fst)

lemma dom_TABLE_2:
  "dom TABLE_2 = {ILLIMITE_26_PLUS, ILLIMITE_26_MINUS, ILLIMITE_2_PERS, FAMILLE,
     ILLIMITE_3D, CINE_PLUS_CANAL, CINE_DAY}"
  by (simp add: TABLE_2_def dom_map_of_conv_image_fst)

lemma resolve_tariff_Inr:
  "resolve_tariff f d = Inr t \<longleftrightarrow>
     (d = 1 \<and> TABLE_1 f = Some t) \<or> ((d = 6 \<or> d = 12) \<and> TABLE_2 f = Some t)"
  by (auto simp: resolve_tariff_def split: option.splits)

lemma init_Inr:
  "Abonnement_init f d sd a c l = Inr s \<longleftrightarrow>
     (\<exists>t. resolve_tariff f d = Inr t \<and>
        s = \<lparr>formula = f, duration_months = d, start_date = sd, adults = a, children = c,
             livret_presented = l, tariff = t\<rparr> \<and>
        (f = FAMILLE \<longrightarrow> a \<le> 2 \<and> c \<le> 2 \<and> l))"
  by (auto simp: Abonnement_init_def validate_family_def Let_def split: sum.splits)

lemma init_Inl:
  "Abonnement_init f d sd a c l = Inl e \<longleftrightarrow>
     resolve_tariff f d = Inl e \<or>
     ((\<exists>t. resolve_tariff f d = Inr t) \<and> f = FAMILLE \<and> \<not> (a \<le> 2 \<and> c \<le> 2 \<and> l) \<and>
      e = InvalidFamily)"
  by (auto simp: Abonnement_init_def validate_family_def Let_def split: sum.splits)

lemma valid_date_day: "valid_date d \<Longrightarrow> 1 \<le> day d \<and> day d \<le> 31"
  by (auto simp: valid_date_def days_in_month_def split: if_splits)

lemma first_payment_for_day_Inl:
  "first_payment_for_day tp n = Inl e \<longleftrightarrow> (n < 1 \<or> 31 < n) \<and> e = StartDayOutOfRange"
  by (auto simp: first_payment_for_day_def split: prod.splits)

lemma first_payment_Inr:
  "first_payment s = Inr p \<longleftrightarrow>
     (\<exists>b. first_payment_for_day (tariff s) (day (start_date s)) = Inr b \<and>
          p = quantize b (Decimal 1 (-2)))"
  by (auto simp: first_payment_def split: sum.splits)

lemma first_payment_exp: "first_payment s = Inr p \<Longrightarrow> dec_exp p = - 2"
  by (auto simp: first_payment_Inr dec_exp_quantize)

lemma total_cost_exp: "total_cost s = Inr t \<Longrightarrow> dec_exp t = - 2"
  by (auto simp: total_cost_def Let_def dec_exp_quantize split: sum.splits)

text \<open>
  Every stored monthly fee is a whole number of cents: its exponent is \<open>-2\<close>, or \<open>0\<close> for
  \<open>CINE_DAY\<close>.
\<close>

lemma table_fee_exp:
  assumes "resolve_tariff f d = Inr t"
  shows "dec_exp (monthly_fee t) = (if f = CINE_DAY then 0 else - 2)"
  using assms unfolding resolve_tariff_Inr
  by (cases f) (auto simp: TABLE_1_def TABLE_2_def)

lemma table_fee_cents:
  assumes "resolve_tariff f d = Inr t"
  shows "\<exists>n. dec_value (monthly_fee t) = of_int n / 100"
proof -
  obtain c e where m: "monthly_fee t = Decimal c e" by (cases "monthly_fee t") auto
  from table_fee_exp [OF assms] have "e = 0 \<or> e = - 2"
    by (simp add: m split: if_splits)
  then show ?thesis
    using dec_value_cents [of c] dec_value_units [of c] unfolding m by blast
qed

section \<open>First-payment brackets\<close>

text \<open>
  Claim C1. For every tariff plan and every integer day, \<open>first_payment_for_day\<close> returns
  bracket 0 for a day from 1 to 8, bracket 1 for a day from 9 to 16, bracket 2 for a day from
  17 to 22 and bracket 3 for a day from 23 to 31; for every day below 1 or above 31 it fails
  with the validation error of the start day.
\<close>

theorem first_payment_for_day_brackets:
  assumes "first_payment_brackets tp = (b0, b1, b2, b3)"
  shows "(1 \<le> n \<and> n \<le> 8 \<longrightarrow> first_payment_for_day tp n = Inr b0) \<and>
         (9 \<le> n \<and> n \<le> 16 \<longrightarrow> first_payment_for_day tp n = Inr b1) \<and>
         (17 \<le> n \<and> n \<le> 22 \<longrightarrow> first_payment_for_day tp n = Inr b2) \<and>
         (23 \<le> n \<and> n \<le> 31 \<longrightarrow> first_payment_for_day tp n = Inr b3) \<and>
         (n < 1 \<or> 31 < n \<longrightarrow> first_payment_for_day tp n = Inl StartDayOutOfRange)"
  using assms by (auto simp: first_payment_for_day_def)

theorem first_payment_for_day_brackets_witness:
  "first_payment_for_day
     \<lparr>monthly_fee = Decimal 1690 (-2),
      first_payment_brackets =
        (Decimal 3380 (-2), Decimal 2243 (-2), Decimal 2253 (-2), Decimal 1690 (-2))\<rparr> 10
   = Inr (Decimal 2243 (-2)) \<and>
   first_payment_for_day
     \<lparr>monthly_fee = Decimal 1690 (-2),
      first_payment_brackets =
        (Decimal 3380 (-2), Decimal 2243 (-2), Decimal 2253 (-2), Decimal 1690 (-2))\<rparr> 32
   = Inl StartDayOutOfRange"
proof -
  let ?tp = "\<lparr>monthly_fee = Decimal 1690 (-2),
      first_payment_brackets =
        (Decimal 3380 (-2), Decimal 2243 (-2), Decimal 2253 (-2), Decimal 1690 (-2))\<rparr>"
  have b: "first_payment_brackets ?tp =
      (Decimal 3380 (-2), Decimal 2243 (-2), Decimal 2253 (-2), Decimal 1690 (-2))"
    by simp
  have "first_payment_for_day ?tp 10 = Inr (Decimal 2243 (-2))"
    using first_payment_for_day_brackets [OF b, of 10] by simp
  moreover have "first_payment_for_day ?tp 32 = Inl StartDayOutOfRange"
    using first_payment_for_day_brackets [OF b, of 32] by simp
  ultimately show ?thesis by simp
qed

section \<open>Tariff resolution\<close>

text \<open>
  Claim C3. The constructor, called with a duration of 1 month, looks the formula up in
  \<open>TABLE_1\<close> and, with a duration of 6 or 12 months, in \<open>TABLE_2\<close>: it fails with the
  error of the incompatible formula when the table has no entry, and otherwise goes on to the
  household check with the entry found, which becomes the tariff of the instance. With
  these three durations it never fails with the error of the unsupported duration; with
  every other duration it fails with that error, whatever the formula and the other
  arguments.
\<close>

theorem duration_selects_table:
  "resolve_tariff f 1 = (case TABLE_1 f of None \<Rightarrow> Inl IncompatibleFormula | Some t \<Rightarrow> Inr t) \<and>
   resolve_tariff f 6 = (case TABLE_2 f of None \<Rightarrow> Inl IncompatibleFormula | Some t \<Rightarrow> Inr t) \<and>
   resolve_tariff f 12 = (case TABLE_2 f of None \<Rightarrow> Inl IncompatibleFormula | Some t \<Rightarrow> Inr t) \<and>
   (d = 1 \<longrightarrow>
      Abonnement_init f d sd a c l =
        (case TABLE_1 f of
           None \<Rightarrow> Inl IncompatibleFormula
         | Some t \<Rightarrow>
             if f = FAMILLE \<and> \<not> (a \<le> 2 \<and> c \<le> 2 \<and> l) then Inl InvalidFamily
             else Inr \<lparr>formula = f, duration_months = d, start_date = sd, adults = a,
                       children = c, livret_presented = l, tariff = t\<rparr>)) \<and>
   (d = 6 \<or> d = 12 \<longrightarrow>
      Abonnement_init f d sd a c l =
        (case TABLE_2 f of
           None \<Rightarrow> Inl IncompatibleFormula
         | Some t \<Rightarrow>
             if f = FAMILLE \<and> \<not> (a \<le> 2 \<and> c \<le> 2 \<and> l) then Inl InvalidFamily
             else Inr \<lparr>formula = f, duration_months = d, start_date = sd, adults = a,
                       children = c, livret_presented = l, tariff = t\<rparr>)) \<and>
   (d = 1 \<or> d = 6 \<or> d = 12 \<longrightarrow> Abonnement_init f d sd a c l \<noteq> Inl UnsupportedDuration) \<and>
   (Abonnement_init f d sd a c l = Inr s \<longrightarrow>
      (d = 1 \<and> TABLE_1 f = Some (tariff s)) \<or> ((d = 6 \<or> d = 12) \<and> TABLE_2 f = Some (tariff s))) \<and>
   (d \<noteq> 1 \<and> d \<noteq> 6 \<and> d \<noteq> 12 \<longrightarrow> Abonnement_init f d sd a c l = Inl UnsupportedDuration)"
proof -
  have other: "Abonnement_init f d sd a c l = Inl UnsupportedDuration"
    if "d \<noteq> 1 \<and> d \<noteq> 6 \<and> d \<noteq> 12"
    using that by (simp add: Abonnement_init_def resolve_tariff_def)
  have entry: "(d = 1 \<and> TABLE_1 f = Some (tariff s)) \<or>
      ((d = 6 \<or> d = 12) \<and> TABLE_2 f = Some (tariff s))"
    if "Abonnement_init f d sd a c l = Inr s"
    using that by (auto simp: init_Inr resolve_tariff_Inr)
  have one: "Abonnement_init f d sd a c l =
        (case TABLE_1 f of
           None \<Rightarrow> Inl IncompatibleFormula
         | Some t \<Rightarrow>
             if f = FAMILLE \<and> \<not> (a \<le> 2 \<and> c \<le> 2 \<and> l) then Inl InvalidFamily
             else Inr \<lparr>formula = f, duration_months = d, start_date = sd, adults = a,
                       children = c, livret_presented = l, tariff = t\<rparr>)"
    if "d = 1"
    using that
    by (simp add: Abonnement_init_def resolve_tariff_def validate_family_def Let_def
        split: option.splits)
  have six: "Abonnement_init f d sd a c l =
        (case TABLE_2 f of
           None \<Rightarrow> Inl IncompatibleFormula
         | Some t \<Rightarrow>
             if f = FAMILLE \<and> \<not> (a \<le> 2 \<and> c \<le> 2 \<and> l) then Inl InvalidFamily
             else Inr \<lparr>formula = f, duration_months = d, start_date = sd, adults = a,
                       children = c, livret_presented = l, tariff = t\<rparr>)"
    if "d = 6 \<or> d = 12"
    using that
    by (auto simp: Abonnement_init_def resolve_tariff_def validate_family_def Let_def
        split: option.splits)
  have supported: "Abonnement_init f d sd a c l \<noteq> Inl UnsupportedDuration"
    if "d = 1 \<or> d = 6 \<or> d = 12"
    using that by (auto simp: init_Inl resolve_tariff_def split: option.splits)
  have r1: "resolve_tariff f 1 =
      (case TABLE_1 f of None \<Rightarrow> Inl IncompatibleFormula | Some t \<Rightarrow> Inr t)"
    by (simp add: resolve_tariff_def)
  have r6: "resolve_tariff f 6 =
      (case TABLE_2 f of None \<Rightarrow> Inl IncompatibleFormula | Some t \<Rightarrow> Inr t)"
    by (simp add: resolve_tariff_def)
  have r12: "resolve_tariff f 12 =
      (case TABLE_2 f of None \<Rightarrow> Inl IncompatibleFormula | Some t \<Rightarrow> Inr t)"
    by (simp add: resolve_tariff_def)
  show ?thesis
    apply (intro conjI impI)
           apply (rule r1)
          apply (rule r6)
         apply (rule r12)
        apply (erule one)
       apply (erule six)
      apply (erule supported)
     apply (erule entry)
    apply (erule other)
    done
qed

theorem duration_selects_table_witness:
  "Abonnement_init ILLIMITE_WEEKEND 3 \<lparr>year = 2024, month = 5, day = 1\<rparr> 1 0 False
     = Inl UnsupportedDuration \<and>
   Abonnement_init ILLIMITE_WEEKEND 1 \<lparr>year = 2024, month = 5, day = 10\<rparr> 1 0 False
     = Inr \<lparr>formula = ILLIMITE_WEEKEND, duration_months = 1,
          start_date = \<lparr>year = 2024, month = 5, day = 10\<rparr>, adults = 1, children = 0,
          livret_presented = False,
          tariff = \<lparr>monthly_fee = Decimal 1690 (-2),
            first_payment_brackets =
              (Decimal 3380 (-2), Decimal 2243 (-2), Decimal 2253 (-2), Decimal 1690 (-2))\<rparr>\<rparr> \<and>
   Abonnement_init ILLIMITE_3D 12 \<lparr>year = 2024, month = 5, day = 10\<rparr> 1 0 False
     = Inr \<lparr>formula = ILLIMITE_3D, duration_months = 12,
          start_date = \<lparr>year = 2024, month = 5, day = 10\<rparr>, adults = 1, children = 0,
          livret_presented = False,
          tariff = \<lparr>monthly_fee = Decimal 3090 (-2),
            first_payment_brackets =
              (Decimal 3090 (-2), Decimal 3090 (-2), Decimal 3090 (-2), Decimal 3090 (-2))\<rparr>\<rparr>"
proof -
  let ?s1 = "\<lparr>formula = ILLIMITE_WEEKEND, duration_months = 1,
          start_date = \<lparr>year = 2024, month = 5, day = 10\<rparr>, adults = 1, children = 0,
          livret_presented = False,
          tariff = \<lparr>monthly_fee = Decimal 1690 (-2),
            first_payment_brackets =
              (Decimal 3380 (-2), Decimal 2243 (-2), Decimal 2253 (-2), Decimal 1690 (-2))\<rparr>\<rparr>"
  let ?s12 = "\<lparr>formula = ILLIMITE_3D, duration_months = 12,
          start_date = \<lparr>year = 2024, month = 5, day = 10\<rparr>, adults = 1, children = 0,
          livret_presented = False,
          tariff = \<lparr>monthly_fee = Decimal 3090 (-2),
            first_payment_brackets =
              (Decimal 3090 (-2), Decimal 3090 (-2), Decimal 3090 (-2), Decimal 3090 (-2))\<rparr>\<rparr>"
  note t3 = duration_selects_table
    [of ILLIMITE_WEEKEND 3 "\<lparr>year = 2024, month = 5, day = 1\<rparr>" 1 0 False ?s1]
  note t1 = duration_selects_table
    [of ILLIMITE_WEEKEND 1 "\<lparr>year = 2024, month = 5, day = 10\<rparr>" 1 0 False ?s1]
  note t12 = duration_selects_table
    [of ILLIMITE_3D 12 "\<lparr>year = 2024, month = 5, day = 10\<rparr>" 1 0 False ?s12]
  have tab1: "TABLE_1 ILLIMITE_WEEKEND = Some (tariff ?s1)"
    by (simp add: TABLE_1_def)
  have tab2: "TABLE_2 ILLIMITE_3D = Some (tariff ?s12)"
    by (simp add: TABLE_2_def)
  have a: "Abonnement_init ILLIMITE_WEEKEND 3 \<lparr>year = 2024, month = 5, day = 1\<rparr> 1 0 False
      = Inl UnsupportedDuration"
    by (rule mp [OF t3 [THEN conjunct2, THEN conjunct2, THEN conjunct2, THEN conjunct2,
        THEN conjunct2, THEN conjunct2, THEN conjunct2]]) simp
  have "Abonnement_init ILLIMITE_WEEKEND 1 \<lparr>year = 2024, month = 5, day = 10\<rparr> 1 0 False =
      (case TABLE_1 ILLIMITE_WEEKEND of
         None \<Rightarrow> Inl IncompatibleFormula
       | Some t \<Rightarrow>
           if ILLIMITE_WEEKEND = FAMILLE \<and> \<not> ((1::int) \<le> 2 \<and> (0::int) \<le> 2 \<and> False)
           then Inl InvalidFamily
           else Inr \<lparr>formula = ILLIMITE_WEEKEND, duration_months = 1,
                  start_date = \<lparr>year = 2024, month = 5, day = 10\<rparr>, adults = 1,
                  children = 0, livret_presented = False, tariff = t\<rparr>)"
    by (rule mp [OF t1 [THEN conjunct2, THEN conjunct2, THEN conjunct2, THEN conjunct1]]) simp
  then have b: "Abonnement_init ILLIMITE_WEEKEND 1 \<lparr>year = 2024, month = 5, day = 10\<rparr> 1 0 False
      = Inr ?s1"
    unfolding tab1 by simp
  have "Abonnement_init ILLIMITE_3D 12 \<lparr>year = 2024, month = 5, day = 10\<rparr> 1 0 False =
      (case TABLE_2 ILLIMITE_3D of
         None \<Rightarrow> Inl IncompatibleFormula
       | Some t \<Rightarrow>
           if ILLIMITE_3D = FAMILLE \<and> \<not> ((1::int) \<le> 2 \<and> (0::int) \<le> 2 \<and> False)
           then Inl InvalidFamily
           else Inr \<lparr>formula = ILLIMITE_3D, duration_months = 12,
                  start_date = \<lparr>year = 2024, month = 5, day = 10\<rparr>, adults = 1,
                  children = 0, livret_presented = False, tariff = t\<rparr>)"
    by (rule mp [OF t12 [THEN conjunct2, THEN conjunct2, THEN conjunct2, THEN conjunct2,
        THEN conjunct1]]) simp
  then have c: "Abonnement_init ILLIMITE_3D 12 \<lparr>year = 2024, month = 5, day = 10\<rparr> 1 0 False
      = Inr ?s12"
    unfolding tab2 by simp
  show ?thesis
    by (intro conjI a b c)
qed

text \<open>
  Claim C4. With a duration of 1, 6 or 12 months the construction fails with the validation
  error of the incompatible formula whenever the formula is missing from the table the
  duration selects. The week-end and semaine formulas are the ones that only \<open>TABLE_1\<close> has,
  so they fail with 6 and 12 months; the 3D, CINE+ and CINE DAY formulas are the ones that
  only \<open>TABLE_2\<close> has, so they fail with 1 month; every other combination of a formula with
  one of the three durations resolves a tariff.
\<close>

theorem formula_table_compatibility:
  "dom TABLE_1 - dom TABLE_2 = {ILLIMITE_WEEKEND, ILLIMITE_SEMAINE} \<and>
   dom TABLE_2 - dom TABLE_1 = {ILLIMITE_3D, CINE_PLUS_CANAL, CINE_DAY} \<and>
   (d = 1 \<or> d = 6 \<or> d = 12 \<longrightarrow>
     (if (d = 1 \<and> f \<in> {ILLIMITE_3D, CINE_PLUS_CANAL, CINE_DAY}) \<or>
         (d \<noteq> 1 \<and> f \<in> {ILLIMITE_WEEKEND, ILLIMITE_SEMAINE})
      then resolve_tariff f d = Inl IncompatibleFormula \<and>
           Abonnement_init f d sd a c l = Inl IncompatibleFormula
      else \<exists>t. resolve_tariff f d = Inr t))"
proof -
  have 1: "dom TABLE_1 - dom TABLE_2 = {ILLIMITE_WEEKEND, ILLIMITE_SEMAINE}"
    unfolding dom_TABLE_1 dom_TABLE_2 by auto
  have 2: "dom TABLE_2 - dom TABLE_1 = {ILLIMITE_3D, CINE_PLUS_CANAL, CINE_DAY}"
    unfolding dom_TABLE_1 dom_TABLE_2 by auto
  have 3: "resolve_tariff f d = Inl IncompatibleFormula \<and>
      Abonnement_init f d sd a c l = Inl IncompatibleFormula"
    if "d = 1 \<and> f \<in> {ILLIMITE_3D, CINE_PLUS_CANAL, CINE_DAY}"
    using that by (auto simp: Abonnement_init_def resolve_tariff_def TABLE_1_def)
  have 4: "resolve_tariff f d = Inl IncompatibleFormula \<and>
      Abonnement_init f d sd a c l = Inl IncompatibleFormula"
    if "d = 6 \<or> d = 12" "f \<in> {ILLIMITE_WEEKEND, ILLIMITE_SEMAINE}"
    using that by (auto simp: Abonnement_init_def resolve_tariff_def TABLE_2_def)
  have 5: "\<exists>t. resolve_tariff f d = Inr t"
    if "d = 1" "f \<notin> {ILLIMITE_3D, CINE_PLUS_CANAL, CINE_DAY}"
    using that by (cases f) (simp_all add: resolve_tariff_def TABLE_1_def)
  have 6: "\<exists>t. resolve_tariff f d = Inr t"
    if "d = 6 \<or> d = 12" "f \<notin> {ILLIMITE_WEEKEND, ILLIMITE_SEMAINE}"
    using that by (cases f) (auto simp: resolve_tariff_def TABLE_2_def)
  show ?thesis
    using 1 2 3 4 5 6 by (cases "d = 1") auto
qed

theorem formula_table_compatibility_witness:
  "Abonnement_init ILLIMITE_WEEKEND 6 \<lparr>year = 2024, month = 5, day = 1\<rparr> 1 0 False
     = Inl IncompatibleFormula \<and>
   Abonnement_init CINE_DAY 1 \<lparr>year = 2024, month = 5, day = 20\<rparr> 1 0 False
     = Inl IncompatibleFormula \<and>
   (\<exists>t. resolve_tariff FAMILLE 12 = Inr t)"
proof -
  have "Abonnement_init ILLIMITE_WEEKEND 6 \<lparr>year = 2024, month = 5, day = 1\<rparr> 1 0 False
      = Inl IncompatibleFormula"
    using formula_table_compatibility
      [of 6 ILLIMITE_WEEKEND "\<lparr>year = 2024, month = 5, day = 1\<rparr>" 1 0 False]
    by simp
  moreover have "Abonnement_init CINE_DAY 1 \<lparr>year = 2024, month = 5, day = 20\<rparr> 1 0 False
      = Inl IncompatibleFormula"
    using formula_table_compatibility
      [of 1 CINE_DAY "\<lparr>year = 2024, month = 5, day = 20\<rparr>" 1 0 False]
    by simp
  moreover have "\<exists>t. resolve_tariff FAMILLE 12 = Inr t"
    using formula_table_compatibility [of 12 FAMILLE]
    by simp
  ultimately show ?thesis by simp
qed

section \<open>Total cost\<close>

text \<open>
  On a constructed subscription no coefficient comes near the 28 significant digits of
  Python's default context, so the exact operations of the model are the ones Python
  performs: the first payment, the product of the fee with the remaining months, their sum
  and the quantized total all have a coefficient below \<open>10 ^ 8\<close>.
\<close>

lemma table_amounts:
  assumes "resolve_tariff f d = Inr t"
  shows "table_amount (monthly_fee t) \<and>
    (case first_payment_brackets t of
       (b0, b1, b2, b3) \<Rightarrow> table_amount b0 \<and> table_amount b1 \<and> table_amount b2 \<and> table_amount b3)"
  using assms unfolding resolve_tariff_Inr
  by (cases f) (auto simp: TABLE_1_def TABLE_2_def table_amount_def)

lemma bracket_table_amount:
  assumes "resolve_tariff f d = Inr t" and "first_payment_for_day t n = Inr b"
  shows "table_amount b"
  using table_amounts [OF assms(1)] assms(2)
  by (auto simp: first_payment_for_day_def split: prod.splits if_splits)

lemma quantize_table_amount:
  assumes "table_amount b"
  shows "quantize b (Decimal 1 (-2)) =
         Decimal (dec_int b * (if dec_exp b = 0 then 100 else 1)) (- 2)"
  using assms by (cases b) (auto simp: table_amount_def quantize_def)

lemma mul_dec_of_int:
  "dec_mul m (dec_of_int r) = Decimal (dec_int m * r) (dec_exp m)"
  by (simp add: dec_mul_def dec_of_int_def)

lemma add_cents:
  assumes "e = 0 \<or> e = - 2"
  shows "dec_add (Decimal x (- 2)) (Decimal y e) =
         Decimal (x + y * (if e = 0 then 100 else 1)) (- 2)"
  using assms by (auto simp: dec_add_def)

lemma quantize_cents: "quantize (Decimal x (- 2)) (Decimal 1 (- 2)) = Decimal x (- 2)"
  by (simp add: quantize_def)

lemma precision_arith:
  assumes m: "table_amount m" and b: "table_amount b" and r: "r = 0 \<or> r = 5 \<or> r = 11"
  shows "\<bar>dec_int (quantize b (Decimal 1 (-2)))\<bar> < 10 ^ 8 \<and>
         \<bar>dec_int (dec_mul m (dec_of_int r))\<bar> < 10 ^ 8 \<and>
         \<bar>dec_int (dec_add (quantize b (Decimal 1 (-2))) (dec_mul m (dec_of_int r)))\<bar> < 10 ^ 8 \<and>
         \<bar>dec_int (quantize (dec_add (quantize b (Decimal 1 (-2))) (dec_mul m (dec_of_int r)))
            (Decimal 1 (-2)))\<bar> < 10 ^ 8"
proof -
  define x where "x = dec_int b * (if dec_exp b = 0 then 100 else 1)"
  define y where "y = dec_int m * r"
  define z where "z = x + y * (if dec_exp m = 0 then 100 else 1)"
  from m have me: "dec_exp m = 0 \<or> dec_exp m = - 2" by (simp add: table_amount_def)
  have q: "quantize b (Decimal 1 (-2)) = Decimal x (- 2)"
    by (simp add: quantize_table_amount [OF b] x_def)
  have p: "dec_mul m (dec_of_int r) = Decimal y (dec_exp m)"
    by (simp add: mul_dec_of_int y_def)
  have s: "dec_add (Decimal x (- 2)) (Decimal y (dec_exp m)) = Decimal z (- 2)"
    by (simp only: add_cents [OF me] z_def)
  have x: "0 \<le> x" "x < 1000000"
    using b by (auto simp: x_def table_amount_def)
  have y: "0 \<le> y" "y < 110000"
    using m r by (auto simp: y_def table_amount_def)
  have z: "0 \<le> z" "z < 12000000"
    using x y by (auto simp: z_def)
  show ?thesis
    unfolding q p s quantize_cents using x y z by simp
qed

lemma total_cost_within_precision:
  assumes "Abonnement_init f d sd a c l = Inr s" and "first_payment s = Inr fp"
  shows "\<bar>dec_int fp\<bar> < 10 ^ 8 \<and>
         \<bar>dec_int (dec_mul (Abonnement_monthly_fee s) (dec_of_int (max (d - 1) 0)))\<bar> < 10 ^ 8 \<and>
         \<bar>dec_int (dec_add fp
            (dec_mul (Abonnement_monthly_fee s) (dec_of_int (max (d - 1) 0))))\<bar> < 10 ^ 8 \<and>
         \<bar>dec_int (quantize (dec_add fp
            (dec_mul (Abonnement_monthly_fee s) (dec_of_int (max (d - 1) 0))))
            (Decimal 1 (-2)))\<bar> < 10 ^ 8"
proof -
  from assms(1) obtain t where t: "resolve_tariff f d = Inr t" "tariff s = t"
    by (auto simp: init_Inr)
  from assms(2) obtain b where b: "first_payment_for_day t (day (start_date s)) = Inr b"
    and fp: "fp = quantize b (Decimal 1 (-2))"
    by (auto simp: first_payment_Inr t(2))
  from t(1) have "d = 1 \<or> d = 6 \<or> d = 12"
    by (auto simp: resolve_tariff_Inr)
  then have r: "max (d - 1) 0 = 0 \<or> max (d - 1) 0 = 5 \<or> max (d - 1) 0 = 11"
    by auto
  have m: "table_amount (Abonnement_monthly_fee s)"
    using table_amounts [OF t(1)] by (simp add: Abonnement_monthly_fee_def t(2))
  show ?thesis
    unfolding fp by (rule precision_arith [OF m bracket_table_amount [OF t(1) b] r])
qed

text \<open>
  Claim C2. On every constructed subscription \<open>total_cost\<close> fails exactly as
  \<open>first_payment\<close> does, and otherwise returns an amount with two fractional digits whose
  value is the first payment plus the monthly fee times \<open>max (duration - 1) 0\<close>, rounded half
  up to two decimals. The sum is computed exactly and rounded once, at the end; as every
  term is a whole number of cents, that rounding changes nothing and the total equals the
  sum exactly.
\<close>

theorem total_cost_formula:
  assumes "Abonnement_init f d sd a c l = Inr s"
  shows "case first_payment s of
           Inl e \<Rightarrow> total_cost s = Inl e
         | Inr fp \<Rightarrow>
             \<exists>t. total_cost s = Inr t \<and> dec_exp t = - 2 \<and>
               dec_value t =
                 round_half_up_2dp
                   (dec_value fp + dec_value (Abonnement_monthly_fee s) * of_int (max (d - 1) 0)) \<and>
               dec_value t =
                 dec_value fp + dec_value (Abonnement_monthly_fee s) * of_int (max (d - 1) 0)"
proof (cases "first_payment s")
  case (Inl e)
  then show ?thesis by (simp add: total_cost_def)
next
  case (Inr fp)
  from assms obtain t where t: "resolve_tariff f d = Inr t" "tariff s = t"
    and d: "duration_months s = d"
    by (auto simp: init_Inr)
  define r where "r = max (d - 1) 0"
  define x where "x = dec_value fp + dec_value (Abonnement_monthly_fee s) * of_int r"
  define total where "total = dec_add fp (dec_mul (Abonnement_monthly_fee s) (dec_of_int r))"
  have tc: "total_cost s = Inr (quantize total (Decimal 1 (-2)))"
    by (simp add: total_cost_def Inr d total_def r_def)
  have v: "dec_value total = x"
    by (simp add: total_def x_def dec_value_add dec_value_mul dec_value_of_int)
  obtain n where n: "dec_value (Abonnement_monthly_fee s) = of_int n / 100"
    using table_fee_cents [OF t(1)] t(2) by (auto simp: Abonnement_monthly_fee_def)
  obtain k where k: "fp = Decimal k (- 2)"
    using first_payment_exp [OF Inr] by (cases fp) auto
  have "x = of_int (k + n * r) / 100"
    by (simp add: x_def n k dec_value_cents add_divide_distrib)
  then have exact: "round_half_up_2dp x = x"
    by (simp only: round_half_up_2dp_cents)
  have "dec_value (quantize total (Decimal 1 (-2))) = round_half_up_2dp x"
    by (simp only: dec_value_quantize v)
  then show ?thesis
    using tc exact by (simp add: Inr dec_exp_quantize x_def r_def)
qed

theorem total_cost_formula_witness:
  "first_payment
     \<lparr>formula = CINE_DAY, duration_months = 6,
      start_date = \<lparr>year = 2024, month = 5, day = 20\<rparr>, adults = 1, children = 0,
      livret_presented = False,
      tariff = \<lparr>monthly_fee = Decimal 8 0,
        first_payment_brackets = (Decimal 8 0, Decimal 8 0, Decimal 8 0, Decimal 8 0)\<rparr>\<rparr>
     = Inr (Decimal 800 (-2)) \<and>
   (\<exists>t. total_cost
     \<lparr>formula = CINE_DAY, duration_months = 6,
      start_date = \<lparr>year = 2024, month = 5, day = 20\<rparr>, adults = 1, children = 0,
      livret_presented = False,
      tariff = \<lparr>monthly_fee = Decimal 8 0,
        first_payment_brackets = (Decimal 8 0, Decimal 8 0, Decimal 8 0, Decimal 8 0)\<rparr>\<rparr>
     = Inr t \<and> dec_exp t = - 2 \<and> dec_value t = 48)"
proof -
  let ?s = "\<lparr>formula = CINE_DAY, duration_months = 6,
      start_date = \<lparr>year = 2024, month = 5, day = 20\<rparr>, adults = 1, children = 0,
      livret_presented = False,
      tariff = \<lparr>monthly_fee = Decimal 8 0,
        first_payment_brackets = (Decimal 8 0, Decimal 8 0, Decimal 8 0, Decimal 8 0)\<rparr>\<rparr>"
  have ok: "Abonnement_init CINE_DAY 6 \<lparr>year = 2024, month = 5, day = 20\<rparr> 1 0 False
      = Inr ?s"
    by (simp add: Abonnement_init_def resolve_tariff_def TABLE_2_def validate_family_def)
  have fp: "first_payment ?s = Inr (Decimal 800 (-2))"
    by (simp add: first_payment_def first_payment_for_day_def quantize_def)
  have v: "dec_value (Decimal 800 (-2)) + dec_value (Abonnement_monthly_fee ?s) * of_int (max (6 - 1) 0)
      = 48"
    by (simp add: dec_value_cents dec_value_def Abonnement_monthly_fee_def)
  show ?thesis
    using total_cost_formula [OF ok] fp v by auto
qed

section \<open>Family validation\<close>

text \<open>
  Claim C5, as stated, fails: a family subscription for 3 months is refused although the
  household has 2 adults, 2 children and the document, because the duration is checked
  before the household.
\<close>

theorem family_household_not_sufficient:
  "Abonnement_init FAMILLE 3 \<lparr>year = 2024, month = 1, day = 5\<rparr> 2 2 True
     = Inl UnsupportedDuration"
  by (simp add: Abonnement_init_def resolve_tariff_def)

text \<open>
  Claim C5, amended. For the family formula and a duration of 1, 6 or 12 months, the
  construction succeeds if and only if there are at most 2 adults and at most 2 children and
  the household document was presented; otherwise it fails with the validation error of the
  household. With any other duration the construction of a family subscription fails with
  the error of the unsupported duration, whatever the household. For every other formula
  \<open>validate_family\<close> holds and the construction never fails with the error of the
  household: it succeeds if and only if the tariff resolves, whatever the adults, the
  children and the document flag.
\<close>

theorem family_check:
  "(d = 1 \<or> d = 6 \<or> d = 12 \<longrightarrow>
      ((\<exists>s. Abonnement_init FAMILLE d sd a c l = Inr s) \<longleftrightarrow> a \<le> 2 \<and> c \<le> 2 \<and> l) \<and>
      (\<not> (a \<le> 2 \<and> c \<le> 2 \<and> l) \<longrightarrow> Abonnement_init FAMILLE d sd a c l = Inl InvalidFamily)) \<and>
   (d \<noteq> 1 \<and> d \<noteq> 6 \<and> d \<noteq> 12 \<longrightarrow>
      Abonnement_init FAMILLE d sd a c l = Inl UnsupportedDuration) \<and>
   (f \<noteq> FAMILLE \<longrightarrow>
      Abonnement_init f d sd a c l \<noteq> Inl InvalidFamily \<and>
      ((\<exists>s. Abonnement_init f d sd a c l = Inr s) \<longleftrightarrow> (\<exists>t. resolve_tariff f d = Inr t))) \<and>
   (formula s \<noteq> FAMILLE \<longrightarrow> validate_family s)"
proof -
  have fam: "\<exists>t. resolve_tariff FAMILLE d = Inr t" if "d = 1 \<or> d = 6 \<or> d = 12"
    using that by (auto simp: resolve_tariff_def TABLE_1_def TABLE_2_def)
  have 1: "(\<exists>s. Abonnement_init FAMILLE d sd a c l = Inr s) \<longleftrightarrow> a \<le> 2 \<and> c \<le> 2 \<and> l"
    if "d = 1 \<or> d = 6 \<or> d = 12"
    using fam [OF that] by (auto simp: init_Inr)
  have 2: "Abonnement_init FAMILLE d sd a c l = Inl InvalidFamily"
    if "d = 1 \<or> d = 6 \<or> d = 12" "\<not> (a \<le> 2 \<and> c \<le> 2 \<and> l)"
    using fam [OF that(1)] that(2) by (auto simp: init_Inl)
  have 3: "Abonnement_init f d sd a c l \<noteq> Inl InvalidFamily" if "f \<noteq> FAMILLE"
    using that by (auto simp: init_Inl resolve_tariff_def split: option.splits)
  have 4: "(\<exists>s. Abonnement_init f d sd a c l = Inr s) \<longleftrightarrow> (\<exists>t. resolve_tariff f d = Inr t)"
    if "f \<noteq> FAMILLE"
    using that by (auto simp: init_Inr)
  have 5: "validate_family s" if "formula s \<noteq> FAMILLE"
    using that by (simp add: validate_family_def)
  have 6: "Abonnement_init FAMILLE d sd a c l = Inl UnsupportedDuration"
    if "d \<noteq> 1 \<and> d \<noteq> 6 \<and> d \<noteq> 12"
    using that by (simp add: Abonnement_init_def resolve_tariff_def)
  show ?thesis
    using 1 2 3 4 5 6 by blast
qed

theorem family_check_witness:
  "(\<exists>s. Abonnement_init FAMILLE 1 \<lparr>year = 2024, month = 1, day = 5\<rparr> 2 2 True = Inr s) \<and>
   Abonnement_init FAMILLE 1 \<lparr>year = 2024, month = 1, day = 5\<rparr> 3 2 False = Inl InvalidFamily \<and>
   Abonnement_init FAMILLE 7 \<lparr>year = 2024, month = 1, day = 5\<rparr> 9 9 False
     = Inl UnsupportedDuration \<and>
   (\<exists>s. Abonnement_init ILLIMITE_WEEKEND 1 \<lparr>year = 2024, month = 5, day = 10\<rparr> 5 7 False
      = Inr s)"
proof -
  have "\<exists>s. Abonnement_init FAMILLE 1 \<lparr>year = 2024, month = 1, day = 5\<rparr> 2 2 True = Inr s"
    using family_check [of 1 "\<lparr>year = 2024, month = 1, day = 5\<rparr>" 2 2 True]
    by simp
  moreover have "Abonnement_init FAMILLE 1 \<lparr>year = 2024, month = 1, day = 5\<rparr> 3 2 False
      = Inl InvalidFamily"
    using family_check [of 1 "\<lparr>year = 2024, month = 1, day = 5\<rparr>" 3 2 False]
    by simp
  moreover have "Abonnement_init FAMILLE 7 \<lparr>year = 2024, month = 1, day = 5\<rparr> 9 9 False
      = Inl UnsupportedDuration"
    using family_check [of 7 "\<lparr>year = 2024, month = 1, day = 5\<rparr>" 9 9 False]
    by simp
  moreover have "\<exists>s. Abonnement_init ILLIMITE_WEEKEND 1
      \<lparr>year = 2024, month = 5, day = 10\<rparr> 5 7 False = Inr s"
    using family_check
      [of 1 "\<lparr>year = 2024, month = 5, day = 10\<rparr>" 5 7 False ILLIMITE_WEEKEND]
    by (simp add: resolve_tariff_def TABLE_1_def)
  ultimately show ?thesis by simp
qed

section \<open>The family query after construction\<close>

text \<open>
  \<open>validate_family\<close> reads four attributes and nothing else, an accessor leaves the instance
  as it was, and an operation that is not an assignment to one of the four attributes
  leaves them as they were.
\<close>

lemma validate_family_reads:
  assumes "formula s' = formula s" and "adults s' = adults s"
    and "children s' = children s" and "livret_presented s' = livret_presented s"
  shows "validate_family s' = validate_family s"
  using assms by (simp add: validate_family_def)

lemma call_unchanged: "snd (call m s) = s"
  by (cases m) simp_all

lemma run_calls_unchanged: "run (map Call ms) s = s"
  by (induction ms) (simp_all add: call_unchanged)

lemma apply_operation_household:
  assumes "\<not> assigns_household x"
  shows "validate_family (apply_operation x s) = validate_family s"
  using assms
  by (cases x) (simp_all add: call_unchanged validate_family_def)

lemma run_household:
  assumes "list_all (\<lambda>x. \<not> assigns_household x) xs"
  shows "validate_family (run xs s) = validate_family s"
  using assms
  by (induction xs arbitrary: s) (simp_all add: apply_operation_household)

text \<open>
  Claim C9, as stated, fails: the result of the query can change after construction. The
  family subscription below is constructed with 2 adults and the query returns true; once a
  caller has assigned 3 to its attribute \<^verbatim>\<open>adults\<close>, which the class allows, the query on
  the same instance returns false.
\<close>

theorem validate_family_changes_after_assignment:
  "Abonnement_init FAMILLE 1 \<lparr>year = 2024, month = 1, day = 5\<rparr> 2 2 True =
     Inr \<lparr>formula = FAMILLE, duration_months = 1,
          start_date = \<lparr>year = 2024, month = 1, day = 5\<rparr>, adults = 2, children = 2,
          livret_presented = True,
          tariff = \<lparr>monthly_fee = Decimal 3790 (-2),
            first_payment_brackets =
              (Decimal 7580 (-2), Decimal 5059 (-2), Decimal 5056 (-2), Decimal 3790 (-2))\<rparr>\<rparr> \<and>
   fst (call ValidateFamily
     \<lparr>formula = FAMILLE, duration_months = 1,
      start_date = \<lparr>year = 2024, month = 1, day = 5\<rparr>, adults = 2, children = 2,
      livret_presented = True,
      tariff = \<lparr>monthly_fee = Decimal 3790 (-2),
        first_payment_brackets =
          (Decimal 7580 (-2), Decimal 5059 (-2), Decimal 5056 (-2), Decimal 3790 (-2))\<rparr>\<rparr>)
     = Flag True \<and>
   fst (call ValidateFamily (run [Call ValidateFamily, SetAdults 3]
     \<lparr>formula = FAMILLE, duration_months = 1,
      start_date = \<lparr>year = 2024, month = 1, day = 5\<rparr>, adults = 2, children = 2,
      livret_presented = True,
      tariff = \<lparr>monthly_fee = Decimal 3790 (-2),
        first_payment_brackets =
          (Decimal 7580 (-2), Decimal 5059 (-2), Decimal 5056 (-2), Decimal 3790 (-2))\<rparr>\<rparr>))
     = Flag False"
  by (simp add: Abonnement_init_def resolve_tariff_def TABLE_1_def validate_family_def)

text \<open>
  Claim C9, amended. On every constructed subscription \<open>validate_family\<close> returns true, and
  it returns true again after any sequence of accessor calls and of assignments to the
  attributes it does not read (duration, start date, tariff): no method of the class changes
  the instance, so repeated calls with nothing but accessor calls in between return the same
  result. Only an assignment to the formula, the adults, the children or the document flag
  of the instance can change it.
\<close>

theorem validate_family_stable:
  assumes "Abonnement_init f d sd a c l = Inr s"
    and "list_all (\<lambda>x. \<not> assigns_household x) xs"
  shows "validate_family s \<and>
         run (map Call ms) s = s \<and>
         call ValidateFamily (run (map Call ms) s) = (Flag True, s) \<and>
         fst (call ValidateFamily (run xs s)) = Flag True"
proof -
  have v: "validate_family s"
    using assms(1) by (auto simp: init_Inr validate_family_def)
  have "validate_family (run xs s)"
    using run_household [OF assms(2), of s] v by simp
  then show ?thesis
    using v by (simp add: run_calls_unchanged)
qed

theorem validate_family_stable_witness:
  "fst (call ValidateFamily
     (run [Call ValidateFamily, SetDurationMonths 6, Call TotalCost,
           SetStartDate \<lparr>year = 2024, month = 2, day = 29\<rparr>, Call FirstPayment]
        \<lparr>formula = FAMILLE, duration_months = 1,
         start_date = \<lparr>year = 2024, month = 1, day = 5\<rparr>, adults = 2, children = 2,
         livret_presented = True,
         tariff = \<lparr>monthly_fee = Decimal 3790 (-2),
           first_payment_brackets =
             (Decimal 7580 (-2), Decimal 5059 (-2), Decimal 5056 (-2), Decimal 3790 (-2))\<rparr>\<rparr>))
   = Flag True"
proof -
  let ?s = "\<lparr>formula = FAMILLE, duration_months = 1,
         start_date = \<lparr>year = 2024, month = 1, day = 5\<rparr>, adults = 2, children = 2,
         livret_presented = True,
         tariff = \<lparr>monthly_fee = Decimal 3790 (-2),
           first_payment_brackets =
             (Decimal 7580 (-2), Decimal 5059 (-2), Decimal 5056 (-2), Decimal 3790 (-2))\<rparr>\<rparr>"
  let ?xs = "[Call ValidateFamily, SetDurationMonths 6, Call TotalCost,
           SetStartDate \<lparr>year = 2024, month = 2, day = 29\<rparr>, Call FirstPayment]"
  have ok: "Abonnement_init FAMILLE 1 \<lparr>year = 2024, month = 1, day = 5\<rparr> 2 2 True = Inr ?s"
    by (simp add: Abonnement_init_def resolve_tariff_def TABLE_1_def validate_family_def)
  have xs: "list_all (\<lambda>x. \<not> assigns_household x) ?xs"
    by simp
  show ?thesis
    using validate_family_stable [OF ok xs] by blast
qed

section \<open>Two fractional digits\<close>

text \<open>
  Claim C6. The first payment and the total cost are quantized: \<open>first_payment_exp\<close> and
  \<open>total_cost_exp\<close> give them the exponent \<open>-2\<close>, and \<open>dec_value_quantize\<close> with
  \<open>quantize_third_digit_five\<close> shows the rounding is half up. The monthly fee is not: for
  the CINE DAY formula the subscription returns \<^verbatim>\<open>Decimal("8")\<close>, with no fractional
  digit, while its first payment is \<^verbatim>\<open>Decimal("8.00")\<close>.
\<close>

theorem cine_day_monthly_fee_not_quantized:
  "\<exists>s. Abonnement_init CINE_DAY 6 \<lparr>year = 2024, month = 5, day = 20\<rparr> 1 0 False = Inr s \<and>
       Abonnement_monthly_fee s = Decimal 8 0 \<and>
       dec_exp (Abonnement_monthly_fee s) = 0 \<and>
       first_payment s = Inr (Decimal 800 (-2)) \<and>
       total_cost s = Inr (Decimal 4800 (-2))"
  by (simp add: Abonnement_init_def resolve_tariff_def TABLE_2_def validate_family_def
      Abonnement_monthly_fee_def first_payment_def first_payment_for_day_def total_cost_def
      quantize_def dec_add_def dec_mul_def dec_of_int_def)

text \<open>
  The monthly fee of a constructed subscription is the fee stored in the table the duration
  selects, unchanged, and for every formula other than CINE DAY it has two fractional digits.
\<close>

lemma monthly_fee_verbatim:
  assumes "Abonnement_init f d sd a c l = Inr s"
  shows "\<exists>t. resolve_tariff f d = Inr t \<and> Abonnement_monthly_fee s = monthly_fee t \<and>
             dec_exp (monthly_fee t) = (if f = CINE_DAY then 0 else - 2)"
  using assms table_fee_exp by (auto simp: init_Inr Abonnement_monthly_fee_def)

text \<open>
  Claim C7. The fee stored for CINE DAY in \<open>TABLE_2\<close> is \<^verbatim>\<open>Decimal("8")\<close>: the same number
  as \<^verbatim>\<open>Decimal("8.00")\<close>, and not the same decimal, as it has no fractional digit.
\<close>

theorem cine_day_stored_fee:
  "map_option monthly_fee (TABLE_2 CINE_DAY) = Some (Decimal 8 0) \<and>
   dec_exp (Decimal 8 0) = 0 \<and>
   Decimal 8 0 \<noteq> Decimal 800 (-2) \<and>
   dec_value (Decimal 8 0) = dec_value (Decimal 800 (-2))"
  by (simp add: TABLE_2_def dec_value_def power_int_minus)

section \<open>The worked example and the start day\<close>

text \<open>
  Claim C8. A subscription to the 26+ formula for 6 months starting on the 9th of any month
  has a first payment of 22.90 and a total cost of 137.40.
\<close>

theorem illimite_26_plus_six_months_day_9:
  "\<exists>s. Abonnement_init ILLIMITE_26_PLUS 6 \<lparr>year = y, month = m, day = 9\<rparr> a c l = Inr s \<and>
       first_payment s = Inr (Decimal 2290 (-2)) \<and>
       total_cost s = Inr (Decimal 13740 (-2))"
  by (simp add: Abonnement_init_def resolve_tariff_def TABLE_2_def validate_family_def
      Abonnement_monthly_fee_def first_payment_def first_payment_for_day_def total_cost_def
      quantize_def dec_add_def dec_mul_def dec_of_int_def)

text \<open>
  Claim C10. On a subscription constructed from a valid calendar date the first payment
  never fails: the day of a valid date lies between 1 and 31, so \<open>first_payment\<close> returns an
  amount, and so does \<open>total_cost\<close>.
\<close>

theorem first_payment_defined:
  assumes "valid_date sd" and "Abonnement_init f d sd a c l = Inr s"
  shows "1 \<le> day (start_date s) \<and> day (start_date s) \<le> 31 \<and>
         first_payment s \<noteq> Inl StartDayOutOfRange \<and>
         (\<exists>p. first_payment s = Inr p) \<and> (\<exists>t. total_cost s = Inr t)"
proof -
  from assms(2) have sd: "start_date s = sd" by (auto simp: init_Inr)
  from valid_date_day [OF assms(1)] have r: "1 \<le> day sd" "day sd \<le> 31" by simp_all
  then obtain b where "first_payment_for_day (tariff s) (day (start_date s)) = Inr b"
    unfolding sd by (cases "first_payment_for_day (tariff s) (day sd)")
      (auto simp: first_payment_for_day_Inl)
  then have "first_payment s = Inr (quantize b (Decimal 1 (-2)))"
    by (simp add: first_payment_def)
  then show ?thesis
    using r by (simp add: total_cost_def sd)
qed

theorem first_payment_defined_witness:
  "valid_date \<lparr>year = 2024, month = 2, day = 29\<rparr> \<and>
   (\<exists>p. first_payment
      \<lparr>formula = ILLIMITE_SEMAINE, duration_months = 1,
       start_date = \<lparr>year = 2024, month = 2, day = 29\<rparr>, adults = 1, children = 0,
       livret_presented = False,
       tariff = \<lparr>monthly_fee = Decimal 1990 (-2),
         first_payment_brackets =
           (Decimal 3980 (-2), Decimal 2746 (-2), Decimal 2653 (-2), Decimal 1990 (-2))\<rparr>\<rparr>
      = Inr p)"
proof -
  let ?sd = "\<lparr>year = 2024, month = 2, day = 29\<rparr>"
  let ?s = "\<lparr>formula = ILLIMITE_SEMAINE, duration_months = 1,
       start_date = ?sd, adults = 1, children = 0,
       livret_presented = False,
       tariff = \<lparr>monthly_fee = Decimal 1990 (-2),
         first_payment_brackets =
           (Decimal 3980 (-2), Decimal 2746 (-2), Decimal 2653 (-2), Decimal 1990 (-2))\<rparr>\<rparr>"
  have v: "valid_date ?sd"
    by (simp add: valid_date_def days_in_month_def is_leap_def)
  have ok: "Abonnement_init ILLIMITE_SEMAINE 1 ?sd 1 0 False = Inr ?s"
    by (simp add: Abonnement_init_def resolve_tariff_def TABLE_1_def validate_family_def)
  show ?thesis
    using first_payment_defined [OF v ok] v by blast
qed

end
